theory Spec2Isabelle
  imports Main "HOL-Library.Sublist"
begin

section \<open>Python strings\<close>

text \<open>
  A Python \<open>str\<close> is a sequence of Unicode code points, and \<open>str.strip\<close> and the
  regular expression \<open>.\<close> work on code points. An Isabelle \<open>char\<close> is a byte, so
  the strings of the program are modelled as lists of code points; \<open>ascii\<close> embeds
  the ASCII literals of the source.
\<close>

type_synonym codepoint = nat
type_synonym pystr = "codepoint list"

definition ascii :: "string \<Rightarrow> pystr" where
  "ascii s = map of_char s"

text \<open>\<open>sep.join(xs)\<close>\<close>

fun join :: "pystr \<Rightarrow> pystr list \<Rightarrow> pystr" where
  "join sep [] = []"
| "join sep [x] = x"
| "join sep (x # y # ys) = x @ sep @ join sep (y # ys)"

text \<open>
  \<open>str(n)\<close> for a Python \<open>int\<close>: decimal digits, a minus sign for negative numbers.
\<close>

fun digits :: "nat \<Rightarrow> pystr" where
  "digits n = (if n < 10 then [48 + n] else digits (n div 10) @ [48 + n mod 10])"

declare digits.simps [simp del]

definition str_int :: "int \<Rightarrow> pystr" where
  "str_int i = (if i < 0 then 45 # digits (nat (- i)) else digits (nat i))"

section \<open>Sanitizing a completion (\<open>generate_response\<close>, lines 160 to 163)\<close>

text \<open>
  \<open>str.isspace\<close> for one code point: the white space of CPython's Unicode database,
  which is what \<open>str.strip()\<close> without argument removes.
\<close>

definition is_space :: "codepoint \<Rightarrow> bool" where
  "is_space c \<longleftrightarrow>
     (9 \<le> c \<and> c \<le> 13) \<or> (28 \<le> c \<and> c \<le> 32) \<or> c = 133 \<or> c = 160 \<or> c = 5760 \<or>
     (8192 \<le> c \<and> c \<le> 8202) \<or> c = 8232 \<or> c = 8233 \<or> c = 8239 \<or> c = 8287 \<or> c = 12288"

definition lstrip :: "pystr \<Rightarrow> pystr" where
  "lstrip s = dropWhile is_space s"

definition rstrip :: "pystr \<Rightarrow> pystr" where
  "rstrip s = rev (dropWhile is_space (rev s))"

definition strip :: "pystr \<Rightarrow> pystr" where
  "strip s = rstrip (lstrip s)"

definition OPEN_TAG :: pystr where
  "OPEN_TAG = ascii ''<think>''"

definition CLOSE_TAG :: pystr where
  "CLOSE_TAG = ascii ''</think>''"

text \<open>
  The text after the first occurrence of \<open></think>\<close> in \<open>s\<close>, if there is one: where
  the lazy \<open>.*?</think>\<close> stops, \<open>.\<close> matching every code point under \<open>re.DOTALL\<close>.
\<close>

fun after_close :: "pystr \<Rightarrow> pystr option" where
  "after_close [] = None"
| "after_close (c # cs) =
     (if prefix CLOSE_TAG (c # cs) then Some (drop (length CLOSE_TAG) (c # cs))
      else after_close cs)"

lemma after_close_length: "after_close s = Some r \<Longrightarrow> length r < length s"
  by (induction s) (auto simp: CLOSE_TAG_def ascii_def split: if_splits)

text \<open>
  \<open>re.sub(r'<think>.*?</think>', '', s, flags=re.DOTALL)\<close>: scanning from the left, at
  each position where the pattern matches the match is dropped and the scan goes on
  behind it; elsewhere the code point is kept and the scan moves one position on.
\<close>

function re_sub_think :: "pystr \<Rightarrow> pystr" where
  "re_sub_think [] = []"
| "re_sub_think (c # cs) =
     (if prefix OPEN_TAG (c # cs) then
        (case after_close (drop (length OPEN_TAG) (c # cs)) of
           Some rest \<Rightarrow> re_sub_think rest
         | None \<Rightarrow> c # re_sub_think cs)
      else c # re_sub_think cs)"
  by pat_completeness auto
termination
proof (relation "measure length")
  show "wf (measure length)" by simp
next
  fix c cs rest
  assume "after_close (drop (length OPEN_TAG) (c # cs)) = Some rest"
  then have "length rest < length (drop (length OPEN_TAG) (c # cs))"
    by (rule after_close_length)
  then show "(rest, c # cs) \<in> measure length" by simp
qed simp_all

definition sanitize :: "pystr \<Rightarrow> pystr" where
  "sanitize raw = strip (re_sub_think raw)"


section \<open>Data model\<close>

text \<open>
  \<open>EmotionType\<close> is declared in \<open>models/schemas.py\<close>, which is not among the sources. The
  engine names two of its members; \<open>OTHER\<close> stands for the remaining ones. The string
  \<open>EmotionType.value\<close> of a member is a parameter of the model (\<open>emotion_value\<close> below).
\<close>

datatype emotion_type = NEUTRAL | PREOCUPADA | OTHER pystr

text \<open>
  The record returned by \<open>update_emotional_state\<close>: the engine reads \<open>emotion\<close>,
  \<open>intensity\<close> and \<open>reason\<close>. The intensity is a Python float, which is not modelled:
  its type is a parameter. Time stamps are left out throughout.
\<close>

record 'f emotional_state =
  emotion :: emotion_type
  intensity :: 'f
  reason :: pystr

text \<open>
  A chat message \<open>{"role": ..., "content": ...}\<close>, and a stored dialogue turn, which the
  engine reads through the same two keys.
\<close>

record message =
  role :: pystr
  content :: pystr

record dialogue_turn = message +
  emotion_label :: "pystr option"

text \<open>What Python raises: \<open>requests.exceptions.Timeout\<close>, or any other \<open>Exception\<close>
  with its text \<open>str(e)\<close>. What is not an \<open>Exception\<close> (a keyboard interrupt, the exit
  of the interpreter) is not an error of a collaborator and is not modelled.\<close>

datatype py_exn = Timeout | Exception pystr

text \<open>
  What \<open>requests.post\<close> does: it raises, or it returns a response with a status code.
  Of the body only the outcome of \<open>response.json()["message"]["content"]\<close> and of the
  substitution on it matters: a string, or an exception (the body is not JSON, a key is
  missing, the content is not a string).
\<close>

datatype http_body = Content pystr | Malformed py_exn

datatype http_outcome = Raises py_exn | Response int http_body

text \<open>The calls that \<open>build_prompt\<close> and \<open>generate_response\<close> make on the collaborators.\<close>

datatype call_site =
    UpdateEmotionalState | AddEmotionalState | GetEmotionalModifier
  | GetConversationContext | GetEmotionalSummary | GetConversationSummary
  | RagQuery | AddUserMessage | AddAssistantMessage | RagAddConversationTurn

text \<open>
  The surroundings of one request. \<open>EmotionalIntelligence\<close>, \<open>MemorySystem\<close> and
  \<open>RAGEngine\<close> are not among the sources: what the specification leaves open about
  them is a parameter here (the classification policy, the modifier text, the two
  summaries, the similarity ranking, the text stored for a turn pair), as are the
  formatting of a float with \<open>:.2f\<close> and the answer of the model server. In Python any
  of the calls may raise: \<open>fault\<close> says which do during this request.
\<close>

record 'f world =
  classify :: "pystr \<Rightarrow> 'f emotional_state \<Rightarrow> 'f emotional_state"
  modifier_text :: "'f emotional_state \<Rightarrow> pystr"
  emotion_value :: "emotion_type \<Rightarrow> pystr"
  format_2f :: "'f \<Rightarrow> pystr"
  summarise_conversation :: "dialogue_turn list \<Rightarrow> pystr"
  summarise_emotions :: "'f emotional_state list \<Rightarrow> pystr"
  rank :: "pystr list \<Rightarrow> pystr \<Rightarrow> pystr list"
  combine :: "pystr \<Rightarrow> pystr \<Rightarrow> pystr"
  requests_post :: "pystr \<Rightarrow> pystr \<Rightarrow> message list \<Rightarrow> http_outcome"
  fault :: "call_site \<Rightarrow> py_exn option"

subsection \<open>The collaborators\<close>

record 'f emotional_intelligence =
  current_state :: "'f emotional_state"

text \<open>
  Modelled from the spec: \<open>EmotionalIntelligence.update_emotional_state\<close> (section 4.1,
  \<open>update\<close>) applies the classification policy to the utterance, overwrites the single
  current-state slot with the new record and returns it.
\<close>

definition update_emotional_state ::
  "'f world \<Rightarrow> pystr \<Rightarrow> 'f emotional_intelligence \<Rightarrow> 'f emotional_state \<times> 'f emotional_intelligence" where
  "update_emotional_state w user_message ei =
     (let st = classify w user_message (current_state ei) in (st, ei\<lparr>current_state := st\<rparr>))"

text \<open>
  Modelled from the spec: \<open>EmotionalIntelligence.get_emotional_modifier\<close> (section 4.1,
  \<open>getModifier\<close>) is a directive text determined by the current state.
\<close>

definition get_emotional_modifier :: "'f world \<Rightarrow> 'f emotional_intelligence \<Rightarrow> pystr" where
  "get_emotional_modifier w ei = modifier_text w (current_state ei)"

text \<open>
  Modelled from the spec: \<open>MemorySystem\<close> (sections 3 and 4.2) keeps, for each user
  identifier, an ordered sequence of dialogue turns and an ordered sequence of emotional
  records; a user never referenced has empty sequences.
\<close>

record 'f memory_system =
  conversations :: "pystr \<Rightarrow> dialogue_turn list"
  emotional_history :: "pystr \<Rightarrow> 'f emotional_state list"

text \<open>Modelled from the spec: \<open>MemorySystem.add_message\<close> appends a turn to the user's
  sequence.\<close>

definition add_message ::
  "'f memory_system \<Rightarrow> pystr \<Rightarrow> pystr \<Rightarrow> pystr \<Rightarrow> pystr option \<Rightarrow> 'f memory_system" where
  "add_message m user_id r c label =
     m\<lparr>conversations := (conversations m)
          (user_id := conversations m user_id @ [\<lparr>role = r, content = c, emotion_label = label\<rparr>])\<rparr>"

text \<open>Modelled from the spec: \<open>MemorySystem.add_emotional_state\<close> appends a record to the
  user's emotional timeline.\<close>

definition add_emotional_state ::
  "'f memory_system \<Rightarrow> pystr \<Rightarrow> 'f emotional_state \<Rightarrow> 'f memory_system" where
  "add_emotional_state m user_id st =
     m\<lparr>emotional_history := (emotional_history m)
          (user_id := emotional_history m user_id @ [st])\<rparr>"

text \<open>Modelled from the spec: \<open>MemorySystem.get_conversation_context\<close> returns the most
  recent \<open>max_messages\<close> turns, oldest first, and all of them if there are fewer.\<close>

definition get_conversation_context ::
  "'f memory_system \<Rightarrow> pystr \<Rightarrow> nat \<Rightarrow> dialogue_turn list" where
  "get_conversation_context m user_id max_messages =
     (let turns = conversations m user_id in drop (length turns - max_messages) turns)"

text \<open>Modelled from the spec: the two summaries are digests of the user's turns and of
  the user's emotional timeline; they do not change the memory.\<close>

definition get_conversation_summary :: "'f world \<Rightarrow> 'f memory_system \<Rightarrow> pystr \<Rightarrow> pystr" where
  "get_conversation_summary w m user_id = summarise_conversation w (conversations m user_id)"

definition get_emotional_summary :: "'f world \<Rightarrow> 'f memory_system \<Rightarrow> pystr \<Rightarrow> pystr" where
  "get_emotional_summary w m user_id = summarise_emotions w (emotional_history m user_id)"

text \<open>
  Modelled from the spec: \<open>RAGEngine\<close> (section 4.3) is an append-only store of texts;
  \<open>query\<close> returns up to \<open>n_results\<close> of the ranked snippets, and
  \<open>add_conversation_turn\<close> stores one entry derived from the pair.
\<close>

type_synonym rag_index = "pystr list"

definition query :: "'f world \<Rightarrow> rag_index \<Rightarrow> pystr \<Rightarrow> nat \<Rightarrow> pystr list" where
  "query w idx text n_results = take n_results (rank w idx text)"

definition add_conversation_turn :: "'f world \<Rightarrow> rag_index \<Rightarrow> pystr \<Rightarrow> pystr \<Rightarrow> rag_index" where
  "add_conversation_turn w idx user_text assistant_text = idx @ [combine w user_text assistant_text]"

section \<open>The engine (\<open>models/ai_engine.py\<close>)\<close>

record 'f AIEngine =
  ollama_url :: pystr
  model :: pystr
  emotional_intelligence :: "'f emotional_intelligence"
  memory_system :: "'f memory_system"
  rag_engine :: "rag_index option"
  base_system_prompt :: pystr

text \<open>
  \<open>AIEngine.__init__\<close>: the construction of the retrieval engine and the reading of
  \<open>system_prompt.txt\<close> may raise, and both failures are caught: the engine then has no
  retrieval engine, respectively an empty base prompt. The wake-word engine (audio, a
  listening thread) plays no part in the generation of a response and is left out.
\<close>

definition AIEngine_init ::
  "pystr \<Rightarrow> 'f emotional_intelligence \<Rightarrow> py_exn + rag_index \<Rightarrow> py_exn + pystr \<Rightarrow> 'f AIEngine" where
  "AIEngine_init url ei new_rag_engine read_prompt =
     \<lparr>ollama_url = url,
      model = ascii ''qwen3-coder:480b-cloud'',
      emotional_intelligence = ei,
      memory_system = \<lparr>conversations = (\<lambda>_. []), emotional_history = (\<lambda>_. [])\<rparr>,
      rag_engine = (case new_rag_engine of Inr idx \<Rightarrow> Some idx | Inl e \<Rightarrow> None),
      base_system_prompt = (case read_prompt of Inr text \<Rightarrow> text | Inl e \<Rightarrow> [])\<rparr>"

subsection \<open>Statements that may raise\<close>

text \<open>
  A statement takes the engine to a value or an exception, and to the engine as it has
  become by then. \<open>then_do\<close> is sequencing: an exception ends the sequence.
\<close>

type_synonym ('a, 'f) stmt = "'f AIEngine \<Rightarrow> (py_exn + 'a) \<times> 'f AIEngine"

definition return :: "'a \<Rightarrow> ('a, 'f) stmt" where
  "return x s = (Inr x, s)"

definition raise :: "py_exn \<Rightarrow> ('a, 'f) stmt" where
  "raise e s = (Inl e, s)"

definition then_do :: "('a, 'f) stmt \<Rightarrow> ('a \<Rightarrow> ('b, 'f) stmt) \<Rightarrow> ('b, 'f) stmt" where
  "then_do m f s = (case m s of (Inl e, s') \<Rightarrow> (Inl e, s') | (Inr x, s') \<Rightarrow> f x s')"

text \<open>A call on a collaborator: it raises, leaving the engine as it is, or it has its
  effect and returns.\<close>

definition call :: "'f world \<Rightarrow> call_site \<Rightarrow> ('f AIEngine \<Rightarrow> 'a \<times> 'f AIEngine) \<Rightarrow> ('a, 'f) stmt" where
  "call w site op s =
     (case fault w site of Some e \<Rightarrow> (Inl e, s) | None \<Rightarrow> (case op s of (x, s') \<Rightarrow> (Inr x, s')))"

subsection \<open>\<open>build_prompt\<close>\<close>

definition nl :: pystr where
  "nl = [10]"

text \<open>Lines 98 to 103: the retrieval context.\<close>

definition rag_header :: pystr where
  "rag_header = ascii ''INFORMACI'' @ [211] @ ascii ''N RELEVANTE RECUPERADA:'' @ nl"

definition rag_context_of :: "pystr list \<Rightarrow> pystr" where
  "rag_context_of rag_docs = (if rag_docs \<noteq> [] then rag_header @ join nl rag_docs @ nl else [])"

definition get_rag_context :: "'f world \<Rightarrow> pystr \<Rightarrow> (pystr, 'f) stmt" where
  "get_rag_context w user_message s =
     (case rag_engine s of
        None \<Rightarrow> return [] s
      | Some idx \<Rightarrow>
          then_do (call w RagQuery (\<lambda>s. (query w idx user_message 2, s)))
            (\<lambda>rag_docs. return (rag_context_of rag_docs)) s)"

text \<open>Lines 106 to 116: the system prompt.\<close>

definition system_prompt ::
  "'f world \<Rightarrow> pystr \<Rightarrow> pystr \<Rightarrow> 'f emotional_state \<Rightarrow> pystr \<Rightarrow> pystr \<Rightarrow> pystr \<Rightarrow> pystr" where
  "system_prompt w base emotional_modifier emotional_state conversation_summary
       emotional_summary rag_context =
     base @ nl @ nl @
     ascii ''CONTEXTO EMOCIONAL ACTUAL:'' @ nl @
     emotional_modifier @ nl @
     ascii ''Tu emoci'' @ [243] @ ascii ''n actual: '' @ emotion_value w (emotion emotional_state) @
       ascii '' (intensidad: '' @ format_2f w (intensity emotional_state) @ ascii '')'' @ nl @
     ascii ''Raz'' @ [243] @ ascii ''n: '' @ reason emotional_state @ nl @ nl @
     ascii ''MEMORIA DE CONVERSACI'' @ [211] @ ascii ''N:'' @ nl @
     conversation_summary @ nl @
     emotional_summary @ nl @
     rag_context"

definition build_prompt :: "'f world \<Rightarrow> pystr \<Rightarrow> pystr \<Rightarrow> (message list, 'f) stmt" where
  "build_prompt w user_message user_id =
     then_do (call w UpdateEmotionalState (\<lambda>s.
         case update_emotional_state w user_message (emotional_intelligence s) of
           (st, ei) \<Rightarrow> (st, s\<lparr>emotional_intelligence := ei\<rparr>)))
       (\<lambda>emotional_state.
     then_do (call w AddEmotionalState (\<lambda>s.
         ((), s\<lparr>memory_system := add_emotional_state (memory_system s) user_id emotional_state\<rparr>)))
       (\<lambda>_.
     then_do (call w GetEmotionalModifier (\<lambda>s.
         (get_emotional_modifier w (emotional_intelligence s), s)))
       (\<lambda>emotional_modifier.
     then_do (call w GetConversationContext (\<lambda>s.
         (get_conversation_context (memory_system s) user_id 6, s)))
       (\<lambda>conversation_context.
     then_do (call w GetEmotionalSummary (\<lambda>s.
         (get_emotional_summary w (memory_system s) user_id, s)))
       (\<lambda>emotional_summary.
     then_do (call w GetConversationSummary (\<lambda>s.
         (get_conversation_summary w (memory_system s) user_id, s)))
       (\<lambda>conversation_summary.
     then_do (get_rag_context w user_message)
       (\<lambda>rag_context s.
     return
       ([\<lparr>role = ascii ''system'',
          content = system_prompt w (base_system_prompt s) emotional_modifier emotional_state
                      conversation_summary emotional_summary rag_context\<rparr>] @
        map (\<lambda>msg. \<lparr>role = role msg, content = content msg\<rparr>) conversation_context @
        [\<lparr>role = ascii ''user'', content = user_message\<rparr>]) s)))))))"

subsection \<open>\<open>generate_response\<close>\<close>

definition timeout_reply :: pystr where
  "timeout_reply =
     ascii ''Lo siento Mijin, estoy tardando mucho en pensar... '' @ [191] @
     ascii ''Podr'' @ [237] @ ascii ''as repetir eso?''"

definition error_reply :: "pystr \<Rightarrow> pystr" where
  "error_reply text = ascii ''Ay Mijin, algo sali'' @ [243] @ ascii '' mal: '' @ text"

definition status_reply :: "int \<Rightarrow> pystr" where
  "status_reply status_code = ascii ''Error al conectar con el modelo: '' @ str_int status_code"

text \<open>Lines 141 to 154: the request to the model server (the sampling options and the
  time limit of 60 seconds are constants of the request).\<close>

definition post_chat :: "'f world \<Rightarrow> message list \<Rightarrow> (int \<times> http_body, 'f) stmt" where
  "post_chat w messages s =
     (case requests_post w (ollama_url s @ ascii ''/api/chat'') (model s) messages of
        Raises e \<Rightarrow> raise e s
      | Response status_code body \<Rightarrow> return (status_code, body) s)"

text \<open>Lines 175 and 176.\<close>

definition save_in_rag :: "'f world \<Rightarrow> pystr \<Rightarrow> pystr \<Rightarrow> (unit, 'f) stmt" where
  "save_in_rag w user_message assistant_response s =
     (case rag_engine s of
        None \<Rightarrow> return () s
      | Some idx \<Rightarrow>
          call w RagAddConversationTurn (\<lambda>s.
            ((), s\<lparr>rag_engine := Some (add_conversation_turn w idx user_message assistant_response)\<rparr>)) s)"

text \<open>Lines 137 to 180: the body of the \<open>try\<close>.\<close>

definition generate_response_try ::
  "'f world \<Rightarrow> pystr \<Rightarrow> pystr \<Rightarrow> (pystr \<times> emotion_type, 'f) stmt" where
  "generate_response_try w user_message user_id =
     then_do (build_prompt w user_message user_id)
       (\<lambda>messages.
     then_do (post_chat w messages)
       (\<lambda>(status_code, body).
     if status_code = 200 then
       (case body of
          Malformed e \<Rightarrow> raise e
        | Content raw \<Rightarrow>
            (let assistant_response = sanitize raw in
             then_do (call w AddUserMessage (\<lambda>s.
                 ((), s\<lparr>memory_system :=
                        add_message (memory_system s) user_id (ascii ''user'') user_message None\<rparr>)))
               (\<lambda>_.
             then_do (call w AddAssistantMessage (\<lambda>s.
                 ((), s\<lparr>memory_system :=
                        add_message (memory_system s) user_id (ascii ''assistant'') assistant_response
                          (Some (emotion_value w (emotion (current_state (emotional_intelligence s)))))\<rparr>)))
               (\<lambda>_.
             then_do (save_in_rag w user_message assistant_response)
               (\<lambda>_ s.
             return (assistant_response, emotion (current_state (emotional_intelligence s))) s)))))
     else return (status_reply status_code, NEUTRAL)))"

text \<open>Lines 136 to 185: the \<open>try\<close> with its two handlers. The result is a sum as for
  every statement, so that "does not raise" is a statement about it.\<close>

definition generate_response ::
  "'f world \<Rightarrow> pystr \<Rightarrow> pystr \<Rightarrow> (pystr \<times> emotion_type, 'f) stmt" where
  "generate_response w user_message user_id s =
     (case generate_response_try w user_message user_id s of
        (Inr reply, s') \<Rightarrow> (Inr reply, s')
      | (Inl Timeout, s') \<Rightarrow> (Inr (timeout_reply, PREOCUPADA), s')
      | (Inl (Exception text), s') \<Rightarrow> (Inr (error_reply text, PREOCUPADA), s'))"

subsection \<open>The chat endpoint (\<open>main.py\<close>, lines 77 to 85)\<close>

text \<open>
  The server holds one engine and calls \<open>generate_response\<close> on it for each request;
  the surroundings may differ from request to request. \<open>serve_chats\<close> is the engine
  after a sequence of requests.
\<close>

fun serve_chats :: "('f world \<times> pystr \<times> pystr) list \<Rightarrow> 'f AIEngine \<Rightarrow> 'f AIEngine" where
  "serve_chats [] s = s"
| "serve_chats ((w, user_message, user_id) # rest) s =
     serve_chats rest (snd (generate_response w user_message user_id s))"

section \<open>Notions used to state the properties\<close>

text \<open>
  The model call fails: \<open>requests.post\<close> raises (a timeout or another exception), the
  status is not 200, or the body of a response with status 200 cannot be read.
\<close>

definition adapter_failed :: "http_outcome \<Rightarrow> bool" where
  "adapter_failed out =
     (case out of
        Raises e \<Rightarrow> True
      | Response status_code body \<Rightarrow>
          (if status_code = 200 then (case body of Malformed e \<Rightarrow> True | Content raw \<Rightarrow> False)
           else True))"

text \<open>The size of a prompt: the code points of its contents.\<close>

definition prompt_size :: "message list \<Rightarrow> nat" where
  "prompt_size msgs = sum_list (map (\<lambda>msg. length (content msg)) msgs)"

definition assembled_size :: "'f world \<Rightarrow> pystr \<Rightarrow> pystr \<Rightarrow> 'f AIEngine \<Rightarrow> nat" where
  "assembled_size w user_message user_id s =
     (case fst (build_prompt w user_message user_id s) of
        Inr msgs \<Rightarrow> prompt_size msgs
      | Inl e \<Rightarrow> 0)"

text \<open>
  Concrete surroundings and a concrete engine, for evaluating the program: intensities
  are hundredths, no collaborator raises, the model server answers \<open>out\<close>.
\<close>

definition example_world :: "http_outcome \<Rightarrow> nat world" where
  "example_world out =
     \<lparr>classify = (\<lambda>text st. \<lparr>emotion = NEUTRAL, intensity = 30, reason = ascii ''no strong signal detected''\<rparr>),
      modifier_text = (\<lambda>st. ascii ''Responde con calma.''),
      emotion_value = (\<lambda>e. case e of NEUTRAL \<Rightarrow> ascii ''neutral''
                              | PREOCUPADA \<Rightarrow> ascii ''preocupada'' | OTHER v \<Rightarrow> v),
      format_2f = (\<lambda>n. digits (n div 100) @ ascii ''.'' @ [48 + n div 10 mod 10, 48 + n mod 10]),
      summarise_conversation = (\<lambda>turns. ascii ''turnos: '' @ str_int (int (length turns))),
      summarise_emotions = (\<lambda>states. ascii ''estados: '' @ str_int (int (length states))),
      rank = (\<lambda>idx text. rev idx),
      combine = (\<lambda>user_text assistant_text. user_text @ nl @ assistant_text),
      requests_post = (\<lambda>url model_name messages. out),
      fault = (\<lambda>site. None)\<rparr>"

definition example_engine :: "py_exn + rag_index \<Rightarrow> nat AIEngine" where
  "example_engine new_rag_engine =
     AIEngine_init (ascii ''http://127.0.0.1:11434'')
       \<lparr>current_state = \<lparr>emotion = NEUTRAL, intensity = 50, reason = []\<rparr>\<rparr>
       new_rag_engine (Inr (ascii ''Eres Lily.''))"

text \<open>
  The example engine with something to cut: the index holds one snippet of 1000 code
  points, and every user has two stored turns of 600 code points each.
\<close>

definition loaded_engine :: "nat AIEngine" where
  "loaded_engine =
     (example_engine (Inr [replicate 1000 97]))
       \<lparr>memory_system :=
          \<lparr>conversations = (\<lambda>user.
             [\<lparr>role = ascii ''user'', content = replicate 600 98, emotion_label = None\<rparr>,
              \<lparr>role = ascii ''assistant'', content = replicate 600 99, emotion_label = None\<rparr>]),
           emotional_history = (\<lambda>user. [])\<rparr>\<rparr>"

section \<open>Properties of the sanitizing step\<close>

lemma OPEN_TAG_eq: "OPEN_TAG = [60, 116, 104, 105, 110, 107, 62]"
  by (simp add: OPEN_TAG_def ascii_def)

lemma CLOSE_TAG_eq: "CLOSE_TAG = [60, 47, 116, 104, 105, 110, 107, 62]"
  by (simp add: CLOSE_TAG_def ascii_def)


text \<open>A tag whose first code point does not occur again in it cannot overlap a later
  text that starts with the same code point.\<close>
lemma tag_no_overlap:
  assumes "h \<notin> set t" and "prefix (h # t) (xs @ h # zs)"
  shows "xs = [] \<or> prefix (h # t) xs"
proof (cases "length (h # t) \<le> length xs")
  case True
  with assms(2) show ?thesis
    by (metis prefix_length_prefix prefixI append.assoc prefix_order.dual_order.refl prefix_append)
next
  case False
  show ?thesis
  proof (cases xs)
    case Nil then show ?thesis by simp
  next
    case (Cons x xs')
    from assms(2) obtain r where r: "xs @ h # zs = (h # t) @ r" by (auto simp: prefix_def)
    from False have lt: "length xs < length (h # t)" by simp
    have "(xs @ h # zs) ! length xs = h" by simp
    with r have "((h # t) @ r) ! length xs = h" by simp
    with lt have "(h # t) ! length xs = h" by (metis nth_append)
    with Cons lt have "t ! length xs' = h" by simp
    moreover from Cons lt have "length xs' < length t" by simp
    ultimately have "h \<in> set t" by (metis nth_mem)
    with assms(1) show ?thesis by simp
  qed
qed


lemma sublist_behind:
  assumes "sublist (h # t) (xs @ ys)" and "h \<notin> set xs"
  shows "sublist (h # t) ys"
  using assms
proof (induction xs)
  case Nil then show ?case by simp
next
  case (Cons x xs)
  from Cons.prems(2) have "x \<noteq> h" and "h \<notin> set xs" by auto
  from Cons.prems(1) have "prefix (h # t) (x # xs @ ys) \<or> sublist (h # t) (xs @ ys)"
    by (simp add: sublist_Cons_right)
  with \<open>x \<noteq> h\<close> have "sublist (h # t) (xs @ ys)" by auto
  with Cons.IH \<open>h \<notin> set xs\<close> show ?case by simp
qed

lemma after_close_None: "after_close s = None \<longleftrightarrow> \<not> sublist CLOSE_TAG s"
proof (induction s)
  case Nil then show ?case by (simp add: CLOSE_TAG_eq)
next
  case (Cons c cs) then show ?case by (simp add: sublist_Cons_right)
qed

lemma close_prefix_append:
  "prefix CLOSE_TAG (xs @ 60 # zs) \<Longrightarrow> xs \<noteq> [] \<Longrightarrow> prefix CLOSE_TAG xs"
  using tag_no_overlap [of 60 "[47, 116, 104, 105, 110, 107, 62]" xs zs]
  by (simp add: CLOSE_TAG_eq)

lemma open_prefix_append:
  "prefix OPEN_TAG (xs @ 60 # zs) \<Longrightarrow> xs \<noteq> [] \<Longrightarrow> prefix OPEN_TAG xs"
  using tag_no_overlap [of 60 "[116, 104, 105, 110, 107, 62]" xs zs]
  by (simp add: OPEN_TAG_eq)

lemma after_close_first:
  "\<not> sublist CLOSE_TAG mid \<Longrightarrow> after_close (mid @ CLOSE_TAG @ post) = Some post"
proof (induction mid)
  case Nil
  then show ?case by (simp add: CLOSE_TAG_eq)
next
  case (Cons c mid)
  from Cons.prems have np: "\<not> prefix CLOSE_TAG (c # mid)" and ns: "\<not> sublist CLOSE_TAG mid"
    by (simp_all add: sublist_Cons_right)
  have "\<not> prefix CLOSE_TAG ((c # mid) @ 60 # (tl CLOSE_TAG @ post))"
    using close_prefix_append [of "c # mid"] np by blast
  then have "\<not> prefix CLOSE_TAG (c # mid @ CLOSE_TAG @ post)"
    by (simp add: CLOSE_TAG_eq)
  with Cons.IH ns show ?case by simp
qed

lemma after_close_append:
  "\<not> sublist CLOSE_TAG (60 # zs) \<Longrightarrow>
   after_close (xs @ 60 # zs) = map_option (\<lambda>r. r @ 60 # zs) (after_close xs)"
proof (induction xs)
  case Nil
  then have "after_close (60 # zs) = None" by (rule after_close_None [THEN iffD2])
  then show ?case by simp
next
  case (Cons c xs)
  show ?case
  proof (cases "prefix CLOSE_TAG (c # xs)")
    case True
    then have "prefix CLOSE_TAG ((c # xs) @ 60 # zs)" by (metis prefix_prefix)
    moreover from True have "length CLOSE_TAG \<le> length (c # xs)" by (rule prefix_length_le)
    then have "drop (length CLOSE_TAG) ((c # xs) @ 60 # zs) = drop (length CLOSE_TAG) (c # xs) @ 60 # zs"
      by (simp del: append_Cons)
    ultimately show ?thesis using True by simp
  next
    case False
    then have "\<not> prefix CLOSE_TAG ((c # xs) @ 60 # zs)"
      using close_prefix_append [of "c # xs" zs] by blast
    with False Cons show ?thesis by simp
  qed
qed

lemma re_sub_think_no_close: "\<not> sublist CLOSE_TAG s \<Longrightarrow> re_sub_think s = s"
proof (induction s)
  case Nil then show ?case by simp
next
  case (Cons c cs)
  from Cons.prems have ns: "\<not> sublist CLOSE_TAG cs" by (simp add: sublist_Cons_right)
  have "\<not> sublist CLOSE_TAG (drop (length OPEN_TAG) (c # cs))"
    using Cons.prems by (metis sublist_drop sublist_order.order_trans)
  then have "after_close (drop (length OPEN_TAG) (c # cs)) = None"
    by (simp add: after_close_None)
  with Cons.IH ns show ?case by simp
qed

lemma re_sub_think_pair:
  "\<not> sublist OPEN_TAG pre \<Longrightarrow> \<not> sublist CLOSE_TAG mid \<Longrightarrow>
   re_sub_think (pre @ OPEN_TAG @ mid @ CLOSE_TAG @ post) = pre @ re_sub_think post"
proof (induction pre)
  case Nil
  obtain cs where cs: "OPEN_TAG @ mid @ CLOSE_TAG @ post = 60 # cs"
    by (simp add: OPEN_TAG_eq)
  have "prefix OPEN_TAG (60 # cs)"
    unfolding cs [symmetric] by simp
  moreover have "after_close (drop (length OPEN_TAG) (60 # cs)) = Some post"
    unfolding cs [symmetric] using Nil.prems(2) by (simp add: after_close_first)
  ultimately have "re_sub_think (60 # cs) = re_sub_think post"
    by simp
  then show ?case by (simp add: cs)
next
  case (Cons c pre)
  from Cons.prems(1) have np: "\<not> prefix OPEN_TAG (c # pre)" and ns: "\<not> sublist OPEN_TAG pre"
    by (simp_all add: sublist_Cons_right)
  have "\<not> prefix OPEN_TAG ((c # pre) @ 60 # (tl OPEN_TAG @ mid @ CLOSE_TAG @ post))"
    using open_prefix_append [of "c # pre"] np by blast
  then have "\<not> prefix OPEN_TAG (c # pre @ OPEN_TAG @ mid @ CLOSE_TAG @ post)"
    by (simp add: OPEN_TAG_eq)
  with Cons.IH [OF ns Cons.prems(2)] show ?case by simp
qed


lemma no_close_open:
  assumes "\<not> sublist CLOSE_TAG post"
  shows "\<not> sublist CLOSE_TAG (OPEN_TAG @ post)"
proof
  assume "sublist CLOSE_TAG (OPEN_TAG @ post)"
  then have "sublist (60 # [47, 116, 104, 105, 110, 107, 62]) ([116, 104, 105, 110, 107, 62] @ post)"
    by (simp add: CLOSE_TAG_eq OPEN_TAG_eq sublist_Cons_right)
  then have "sublist (60 # [47, 116, 104, 105, 110, 107, 62]) post"
    by (rule sublist_behind) simp
  with assms show False by (simp add: CLOSE_TAG_eq)
qed

lemma re_sub_think_open:
  "\<not> sublist CLOSE_TAG post \<Longrightarrow>
   re_sub_think (pre @ OPEN_TAG @ post) = re_sub_think pre @ OPEN_TAG @ post"
proof (induction pre rule: re_sub_think.induct)
  case 1
  then show ?case by (simp add: no_close_open re_sub_think_no_close)
next
  case (2 c cs)
  let ?tail = "tl OPEN_TAG @ post"
  have whole: "c # cs @ OPEN_TAG @ post = (c # cs) @ 60 # ?tail"
    by (simp add: OPEN_TAG_eq)
  have nc: "\<not> sublist CLOSE_TAG (60 # ?tail)"
    using no_close_open [OF "2.prems"] by (simp add: OPEN_TAG_eq)
  show ?case
  proof (cases "prefix OPEN_TAG (c # cs)")
    case True
    then have p: "prefix OPEN_TAG (c # cs @ OPEN_TAG @ post)"
      unfolding whole by (metis prefix_prefix)
    from True have "length OPEN_TAG \<le> length (c # cs)" by (rule prefix_length_le)
    then have "drop (length OPEN_TAG) ((c # cs) @ 60 # ?tail) =
               drop (length OPEN_TAG) (c # cs) @ 60 # ?tail"
      by (simp del: append_Cons)
    then have ac: "after_close (drop (length OPEN_TAG) (c # cs @ OPEN_TAG @ post)) =
               map_option (\<lambda>r. r @ 60 # ?tail) (after_close (drop (length OPEN_TAG) (c # cs)))"
      unfolding whole using after_close_append [OF nc] by simp
    show ?thesis
    proof (cases "after_close (drop (length OPEN_TAG) (c # cs))")
      case None
      with ac have "after_close (drop (length OPEN_TAG) (c # cs @ OPEN_TAG @ post)) = None"
        by simp
      with p have "re_sub_think (c # cs @ OPEN_TAG @ post) = c # re_sub_think (cs @ OPEN_TAG @ post)"
        by simp
      moreover from True None have "re_sub_think (c # cs) = c # re_sub_think cs"
        by simp
      ultimately show ?thesis using "2.IH"(1) [OF True None "2.prems"] by simp
    next
      case (Some rest)
      with ac have "after_close (drop (length OPEN_TAG) (c # cs @ OPEN_TAG @ post)) =
                    Some (rest @ OPEN_TAG @ post)"
        by (simp add: OPEN_TAG_eq)
      with p have "re_sub_think (c # cs @ OPEN_TAG @ post) = re_sub_think (rest @ OPEN_TAG @ post)"
        by simp
      moreover from True Some have "re_sub_think (c # cs) = re_sub_think rest"
        by simp
      ultimately show ?thesis using "2.IH"(2) [OF True Some "2.prems"] by simp
    qed
  next
    case False
    then have "\<not> prefix OPEN_TAG ((c # cs) @ 60 # ?tail)"
      using open_prefix_append [of "c # cs" ?tail] by blast
    then have "\<not> prefix OPEN_TAG (c # cs @ OPEN_TAG @ post)"
      unfolding whole .
    with False "2.IH"(3) [OF False "2.prems"] show ?thesis by simp
  qed
qed

lemma lstrip_keep: "\<not> is_space c \<Longrightarrow> lstrip (xs @ c # ys) = lstrip xs @ c # ys"
  by (simp add: lstrip_def dropWhile_append)

lemma rstrip_keep: "\<not> is_space c \<Longrightarrow> rstrip (xs @ c # ys) = xs @ c # rstrip ys"
  by (simp add: rstrip_def dropWhile_append)

lemma strip_tag: "strip (a @ OPEN_TAG @ b) = lstrip a @ OPEN_TAG @ rstrip b"
proof -
  have ns: "\<not> is_space 60" by (simp add: is_space_def)
  have "strip (a @ 60 # tl OPEN_TAG @ b) = rstrip (lstrip a @ 60 # tl OPEN_TAG @ b)"
    by (simp add: strip_def lstrip_keep [OF ns])
  also have "\<dots> = rstrip ((lstrip a @ 60 # butlast (tl OPEN_TAG)) @ 62 # b)"
    by (simp add: OPEN_TAG_eq)
  also have "\<dots> = (lstrip a @ 60 # butlast (tl OPEN_TAG)) @ 62 # rstrip b"
    by (rule rstrip_keep) (simp add: is_space_def)
  finally show ?thesis by (simp add: OPEN_TAG_eq)
qed


text \<open>
  Claim C5. Sanitizing removes a pair of reasoning delimiters with everything between
  them: where the text before the opening \<open><think>\<close> holds no opening delimiter
  (the match is the leftmost one) and the text \<open>mid\<close> up to the closing \<open></think>\<close>
  holds no closing delimiter (the match is lazy and ends at the first one), \<open>mid\<close>
  and both delimiters are gone, whatever code points \<open>mid\<close> holds, line breaks
  included; the same is done to the text behind the pair, so every further pair is
  removed as well; the surrounding white space is trimmed afterwards. In particular
  \<open><think>ignore me</think>Hello!\<close> becomes \<open>Hello!\<close>.
\<close>

theorem sanitize_removes_reasoning:
  assumes "\<not> sublist OPEN_TAG pre" and "\<not> sublist CLOSE_TAG mid"
  shows "sanitize (pre @ OPEN_TAG @ mid @ CLOSE_TAG @ post) = strip (pre @ re_sub_think post) \<and>
         sanitize (ascii ''<think>ignore me</think>Hello!'') = ascii ''Hello!''"
proof
  from assms show "sanitize (pre @ OPEN_TAG @ mid @ CLOSE_TAG @ post) = strip (pre @ re_sub_think post)"
    by (simp add: sanitize_def re_sub_think_pair)
next
  have "re_sub_think ([] @ OPEN_TAG @ ascii ''ignore me'' @ CLOSE_TAG @ ascii ''Hello!'') =
        [] @ re_sub_think (ascii ''Hello!'')"
    by (rule re_sub_think_pair) (simp_all add: OPEN_TAG_eq CLOSE_TAG_eq ascii_def sublist_Cons_right)
  moreover have "re_sub_think (ascii ''Hello!'') = ascii ''Hello!''"
    by (rule re_sub_think_no_close) (simp add: CLOSE_TAG_eq ascii_def sublist_Cons_right)
  ultimately have "re_sub_think (ascii ''<think>ignore me</think>Hello!'') = ascii ''Hello!''"
    by (simp add: OPEN_TAG_def CLOSE_TAG_def ascii_def)
  then show "sanitize (ascii ''<think>ignore me</think>Hello!'') = ascii ''Hello!''"
    by (simp add: sanitize_def strip_def lstrip_def rstrip_def is_space_def ascii_def)
qed

theorem sanitize_removes_reasoning_witness:
  "\<not> sublist OPEN_TAG (ascii ''  Hi '') \<and> \<not> sublist CLOSE_TAG (ascii ''a'' @ nl @ ascii ''b'') \<and>
   sanitize (ascii ''  Hi <think>a'' @ nl @ ascii ''b</think><think>c</think> there '' @ nl)
     = ascii ''Hi  there''"
proof -
  have h1: "\<not> sublist OPEN_TAG (ascii ''  Hi '')"
    by (simp add: OPEN_TAG_eq ascii_def sublist_Cons_right)
  have h2: "\<not> sublist CLOSE_TAG (ascii ''a'' @ nl @ ascii ''b'')"
    by (simp add: CLOSE_TAG_eq ascii_def nl_def sublist_Cons_right)
  have r: "re_sub_think (ascii ''<think>c</think> there '' @ nl) = ascii '' there '' @ nl"
    by (simp add: OPEN_TAG_eq CLOSE_TAG_eq ascii_def nl_def)
  from sanitize_removes_reasoning [OF h1 h2, of "ascii ''<think>c</think> there '' @ nl"]
  have "sanitize (ascii ''  Hi '' @ OPEN_TAG @ (ascii ''a'' @ nl @ ascii ''b'') @ CLOSE_TAG @
          ascii ''<think>c</think> there '' @ nl) = strip (ascii ''  Hi '' @ ascii '' there '' @ nl)"
    by (simp only: r)
  then have "sanitize (ascii ''  Hi <think>a'' @ nl @ ascii ''b</think><think>c</think> there '' @ nl)
     = ascii ''Hi  there''"
    by (simp add: OPEN_TAG_def CLOSE_TAG_def ascii_def nl_def strip_def lstrip_def rstrip_def is_space_def)
  with h1 h2 show ?thesis by blast
qed

text \<open>
  Claim C10. An opening \<open><think>\<close> with no closing \<open></think>\<close> anywhere behind it
  stays in the reply, together with the text that follows it (of which only the
  trailing white space is trimmed, as at the end of every reply); only the complete
  pairs in the text before it are removed.
\<close>

theorem unmatched_open_kept:
  assumes "\<not> sublist CLOSE_TAG post"
  shows "sanitize (pre @ OPEN_TAG @ post) = lstrip (re_sub_think pre) @ OPEN_TAG @ rstrip post"
  using assms by (simp add: sanitize_def re_sub_think_open strip_tag)

theorem unmatched_open_kept_witness:
  "\<not> sublist CLOSE_TAG (ascii '' hmm '') \<and>
   sanitize (ascii '' <think>x</think>Hi <think> hmm '') = ascii ''Hi <think> hmm''"
proof -
  have h: "\<not> sublist CLOSE_TAG (ascii '' hmm '')"
    by (simp add: CLOSE_TAG_eq ascii_def sublist_Cons_right)
  have r: "re_sub_think (ascii '' <think>x</think>Hi '') = ascii '' Hi ''"
    by (simp add: OPEN_TAG_eq CLOSE_TAG_eq ascii_def)
  from unmatched_open_kept [OF h, of "ascii '' <think>x</think>Hi ''"]
  have "sanitize (ascii '' <think>x</think>Hi '' @ OPEN_TAG @ ascii '' hmm '') =
        lstrip (ascii '' Hi '') @ OPEN_TAG @ rstrip (ascii '' hmm '')"
    by (simp only: r)
  then have "sanitize (ascii '' <think>x</think>Hi <think> hmm '') = ascii ''Hi <think> hmm''"
    by (simp add: OPEN_TAG_def ascii_def lstrip_def rstrip_def is_space_def)
  with h show ?thesis by blast
qed

section \<open>Properties of the engine\<close>

lemmas stmt_defs = then_do_def call_def return_def raise_def

lemma build_prompt_cases:
  "build_prompt w m u s = (r, s') \<Longrightarrow>
     (\<exists>e. r = Inl e \<and> s' = s) \<or>
     (\<exists>e. r = Inl e \<and> s' = s\<lparr>emotional_intelligence :=
          (emotional_intelligence s)\<lparr>current_state := classify w m (current_state (emotional_intelligence s))\<rparr>\<rparr>) \<or>
     s' = s\<lparr>emotional_intelligence :=
          (emotional_intelligence s)\<lparr>current_state := classify w m (current_state (emotional_intelligence s))\<rparr>,
        memory_system := add_emotional_state (memory_system s) u (classify w m (current_state (emotional_intelligence s)))\<rparr>"
  by (auto simp: build_prompt_def get_rag_context_def stmt_defs update_emotional_state_def Let_def
      split: option.splits sum.splits prod.splits)

lemma build_prompt_Inr:
  assumes "build_prompt w m u s = (Inr msgs, s')"
  shows "s' = s\<lparr>emotional_intelligence :=
            (emotional_intelligence s)\<lparr>current_state := classify w m (current_state (emotional_intelligence s))\<rparr>,
          memory_system := add_emotional_state (memory_system s) u
            (classify w m (current_state (emotional_intelligence s)))\<rparr>"
   and "msgs =
      [\<lparr>role = ascii ''system'',
        content = system_prompt w (base_system_prompt s)
          (modifier_text w (classify w m (current_state (emotional_intelligence s))))
          (classify w m (current_state (emotional_intelligence s)))
          (summarise_conversation w (conversations (memory_system s) u))
          (summarise_emotions w (emotional_history (memory_system s) u @
             [classify w m (current_state (emotional_intelligence s))]))
          (rag_context_of (case rag_engine s of None \<Rightarrow> [] | Some idx \<Rightarrow> query w idx m 2))\<rparr>] @
      map (\<lambda>msg. \<lparr>role = role msg, content = content msg\<rparr>)
        (get_conversation_context (memory_system s) u 6) @
      [\<lparr>role = ascii ''user'', content = m\<rparr>]"
  using assms
  by (auto simp: build_prompt_def get_rag_context_def stmt_defs update_emotional_state_def Let_def
      get_emotional_modifier_def get_conversation_summary_def get_emotional_summary_def
      add_emotional_state_def rag_context_of_def get_conversation_context_def
      split: option.splits sum.splits prod.splits)

lemma build_prompt_no_fault:
  "fault w = (\<lambda>site. None) \<Longrightarrow> \<exists>msgs s'. build_prompt w m u s = (Inr msgs, s')"
  by (auto simp: build_prompt_def get_rag_context_def stmt_defs update_emotional_state_def Let_def
      split: option.splits sum.splits prod.splits)

lemma build_prompt_frame:
  "build_prompt w m u s = (r, s1) \<Longrightarrow> ollama_url s1 = ollama_url s \<and> model s1 = model s
     \<and> rag_engine s1 = rag_engine s \<and> base_system_prompt s1 = base_system_prompt s
     \<and> conversations (memory_system s1) = conversations (memory_system s)"
  by (drule build_prompt_cases) (auto simp: add_emotional_state_def)

lemma generate_response_try_after_prompt:
  "build_prompt w m u s = (Inr msgs, s1) \<Longrightarrow>
   generate_response_try w m u s =
     then_do (post_chat w msgs)
       (\<lambda>(status_code, body).
     if status_code = 200 then
       (case body of
          Malformed e \<Rightarrow> raise e
        | Content raw \<Rightarrow>
            (let assistant_response = sanitize raw in
             then_do (call w AddUserMessage (\<lambda>s.
                 ((), s\<lparr>memory_system :=
                        add_message (memory_system s) u (ascii ''user'') m None\<rparr>)))
               (\<lambda>_.
             then_do (call w AddAssistantMessage (\<lambda>s.
                 ((), s\<lparr>memory_system :=
                        add_message (memory_system s) u (ascii ''assistant'') assistant_response
                          (Some (emotion_value w (emotion (current_state (emotional_intelligence s)))))\<rparr>)))
               (\<lambda>_.
             then_do (save_in_rag w m assistant_response)
               (\<lambda>_ s.
             return (assistant_response, emotion (current_state (emotional_intelligence s))) s)))))
     else return (status_reply status_code, NEUTRAL)) s1"
  by (simp add: generate_response_try_def then_do_def)

lemma generate_response_try_prompt_failed:
  "build_prompt w m u s = (Inl e, s1) \<Longrightarrow> generate_response_try w m u s = (Inl e, s1)"
  by (simp add: generate_response_try_def then_do_def)

text \<open>What a call does once the prompt is assembled, by the answer of the model server.\<close>

lemma generate_response_raises:
  assumes bp: "build_prompt w m u s = (Inr msgs, s1)"
    and out: "requests_post w (ollama_url s @ ascii ''/api/chat'') (model s) msgs = Raises e"
  shows "generate_response w m u s =
     (Inr (case e of Timeout \<Rightarrow> (timeout_reply, PREOCUPADA)
                   | Exception text \<Rightarrow> (error_reply text, PREOCUPADA)), s1)"
proof -
  from build_prompt_frame [OF bp] have u: "ollama_url s1 = ollama_url s" "model s1 = model s"
    by simp_all
  show ?thesis
    by (cases e)
      (simp_all add: generate_response_def generate_response_try_after_prompt [OF bp] then_do_def
        post_chat_def u out raise_def)
qed

lemma generate_response_bad_status:
  assumes bp: "build_prompt w m u s = (Inr msgs, s1)"
    and out: "requests_post w (ollama_url s @ ascii ''/api/chat'') (model s) msgs = Response code body"
    and code: "code \<noteq> 200"
  shows "generate_response w m u s = (Inr (status_reply code, NEUTRAL), s1)"
proof -
  from build_prompt_frame [OF bp] have u: "ollama_url s1 = ollama_url s" "model s1 = model s"
    by simp_all
  show ?thesis
    by (simp add: generate_response_def generate_response_try_after_prompt [OF bp] then_do_def
        post_chat_def u out return_def code)
qed

lemma generate_response_malformed:
  assumes bp: "build_prompt w m u s = (Inr msgs, s1)"
    and out: "requests_post w (ollama_url s @ ascii ''/api/chat'') (model s) msgs =
                Response 200 (Malformed e)"
  shows "generate_response w m u s =
     (Inr (case e of Timeout \<Rightarrow> (timeout_reply, PREOCUPADA)
                   | Exception text \<Rightarrow> (error_reply text, PREOCUPADA)), s1)"
proof -
  from build_prompt_frame [OF bp] have u: "ollama_url s1 = ollama_url s" "model s1 = model s"
    by simp_all
  show ?thesis
    by (cases e)
      (simp_all add: generate_response_def generate_response_try_after_prompt [OF bp] then_do_def
        post_chat_def u out return_def raise_def)
qed

lemma generate_response_failed_state:
  assumes bp: "build_prompt w m u s = (Inr msgs, s1)"
    and fail: "adapter_failed (requests_post w (ollama_url s @ ascii ''/api/chat'') (model s) msgs)"
  shows "snd (generate_response w m u s) = s1"
proof (cases "requests_post w (ollama_url s @ ascii ''/api/chat'') (model s) msgs")
  case (Raises e)
  from generate_response_raises [OF bp Raises] show ?thesis by simp
next
  case (Response code body)
  show ?thesis
  proof (cases "code = 200")
    case False
    from generate_response_bad_status [OF bp Response False] show ?thesis by simp
  next
    case True
    with fail Response obtain e where "body = Malformed e"
      by (cases body) (simp_all add: adapter_failed_def)
    with Response True generate_response_malformed [OF bp, of e] show ?thesis by simp
  qed
qed

lemma generate_response_success:
  assumes bp: "build_prompt w m u s = (Inr msgs, s1)"
    and out: "requests_post w (ollama_url s @ ascii ''/api/chat'') (model s) msgs =
                Response 200 (Content raw)"
    and nf: "fault w = (\<lambda>site. None)"
  shows "fst (generate_response w m u s) =
           Inr (sanitize raw, emotion (current_state (emotional_intelligence s1)))"
proof -
  from build_prompt_frame [OF bp] have u: "ollama_url s1 = ollama_url s" "model s1 = model s"
    by simp_all
  show ?thesis
    by (simp add: generate_response_def generate_response_try_after_prompt [OF bp] stmt_defs
        post_chat_def u out nf save_in_rag_def Let_def split: option.splits)
qed

lemma rag_absent_preserved:
  assumes "rag_engine s = None"
  shows "rag_engine (snd (generate_response w m u s)) = None"
proof -
  obtain r s1 where bp: "build_prompt w m u s = (r, s1)" by (cases "build_prompt w m u s")
  from build_prompt_frame [OF bp] assms have n: "rag_engine s1 = None" by simp
  show ?thesis
  proof (cases r)
    case (Inl e)
    with bp have "generate_response_try w m u s = (Inl e, s1)"
      by (simp add: generate_response_try_prompt_failed)
    with n show ?thesis by (cases e) (simp_all add: generate_response_def)
  next
    case (Inr msgs)
    with bp have bp': "build_prompt w m u s = (Inr msgs, s1)" by simp
    show ?thesis
      using n
      by (auto simp: generate_response_def generate_response_try_after_prompt [OF bp'] stmt_defs
          post_chat_def save_in_rag_def Let_def
          split: http_outcome.splits http_body.splits py_exn.splits if_splits option.splits
            sum.splits prod.splits)
  qed
qed

text \<open>Evaluating the program in the example surroundings.\<close>

lemma example_world_sel:
  "fault (example_world out) = (\<lambda>site. None)"
  "requests_post (example_world out) url md msgs = out"
  "classify (example_world out) text st =
     \<lparr>emotion = NEUTRAL, intensity = 30, reason = ascii ''no strong signal detected''\<rparr>"
  by (simp_all add: example_world_def)

lemma example_engine_sel:
  "conversations (memory_system (example_engine r)) = (\<lambda>_. [])"
  "emotional_history (memory_system (example_engine r)) = (\<lambda>_. [])"
  "rag_engine (example_engine r) = (case r of Inr idx \<Rightarrow> Some idx | Inl e \<Rightarrow> None)"
  "base_system_prompt (example_engine r) = ascii ''Eres Lily.''"
  by (simp_all add: example_engine_def AIEngine_init_def)


text \<open>
  Claim C4. Whatever the utterance, the user, the engine and the surroundings, and so
  also when the model server, the retrieval engine and every other collaborator fail
  and the engine was built without retrieval engine and without system prompt,
  \<open>generate_response\<close> returns a reply text and an emotion and does not raise.
\<close>

theorem generate_response_never_raises:
  "(\<exists>text emo. fst (generate_response w m u s) = Inr (text, emo)) \<and>
   (\<exists>text emo. fst (generate_response w m u (AIEngine_init url ei (Inl e1) (Inl e2))) = Inr (text, emo))"
proof -
  have "\<exists>text emo. fst (generate_response w m u s') = Inr (text, emo)" for s' :: "'a AIEngine"
  proof -
    obtain r s'' where t: "generate_response_try w m u s' = (r, s'')"
      by (cases "generate_response_try w m u s'")
    show ?thesis
    proof (cases r)
      case (Inl e)
      with t show ?thesis by (cases e) (simp_all add: generate_response_def)
    next
      case (Inr reply)
      with t show ?thesis by (cases reply) (simp add: generate_response_def)
    qed
  qed
  then show ?thesis by blast
qed

text \<open>
  Claim C8. When the prompt has been assembled and the request to the model server times
  out, \<open>generate_response\<close> does not raise: it returns the fixed text \<open>timeout_reply\<close>
  with the emotion \<open>PREOCUPADA\<close> (worried).
\<close>

theorem timeout_gives_fixed_reply:
  assumes "build_prompt w m u s = (Inr msgs, s1)"
    and "requests_post w (ollama_url s @ ascii ''/api/chat'') (model s) msgs = Raises Timeout"
  shows "fst (generate_response w m u s) = Inr (timeout_reply, PREOCUPADA)"
  using generate_response_raises [OF assms] by simp

theorem timeout_gives_fixed_reply_witness:
  "fst (generate_response (example_world (Raises Timeout)) (ascii ''Hola'') (ascii ''u1'')
          (example_engine (Inr []))) = Inr (timeout_reply, PREOCUPADA)"
proof -
  obtain msgs s1 where bp: "build_prompt (example_world (Raises Timeout)) (ascii ''Hola'')
      (ascii ''u1'') (example_engine (Inr [])) = (Inr msgs, s1)"
    using build_prompt_no_fault [OF example_world_sel(1)] by blast
  show ?thesis
    by (rule timeout_gives_fixed_reply [OF bp]) (simp add: example_world_sel)
qed

text \<open>
  Claim C9. When the prompt has been assembled and the model call then fails (it raises,
  or the status is not 200, or the body cannot be read), the call leaves the dialogue
  history of every user and the retrieval engine as they were, and the emotional
  timeline of the user has exactly one new record at its end, the one that
  \<open>build_prompt\<close> computed; the timelines of the other users are unchanged.
\<close>

theorem failed_model_call_frame:
  assumes "build_prompt w m u s = (Inr msgs, s1)"
    and "adapter_failed (requests_post w (ollama_url s @ ascii ''/api/chat'') (model s) msgs)"
  shows "conversations (memory_system (snd (generate_response w m u s))) =
           conversations (memory_system s) \<and>
         rag_engine (snd (generate_response w m u s)) = rag_engine s \<and>
         emotional_history (memory_system (snd (generate_response w m u s))) =
           (emotional_history (memory_system s))
             (u := emotional_history (memory_system s) u @
                [classify w m (current_state (emotional_intelligence s))])"
proof -
  have "snd (generate_response w m u s) = s1"
    using assms by (rule generate_response_failed_state)
  with build_prompt_Inr(1) [OF assms(1)] show ?thesis
    by (simp add: add_emotional_state_def)
qed

theorem failed_model_call_frame_witness:
  "adapter_failed (Response 503 (Content [])) \<and>
   conversations (memory_system (snd (generate_response (example_world (Response 503 (Content [])))
      (ascii ''Hola'') (ascii ''u1'') (example_engine (Inr [ascii ''dato''])))))
     = (\<lambda>_. []) \<and>
   rag_engine (snd (generate_response (example_world (Response 503 (Content [])))
      (ascii ''Hola'') (ascii ''u1'') (example_engine (Inr [ascii ''dato''])))) = Some [ascii ''dato''] \<and>
   emotional_history (memory_system (snd (generate_response (example_world (Response 503 (Content [])))
      (ascii ''Hola'') (ascii ''u1'') (example_engine (Inr [ascii ''dato''])))))
     = (\<lambda>_. [])(ascii ''u1'' :=
          [\<lparr>emotion = NEUTRAL, intensity = 30, reason = ascii ''no strong signal detected''\<rparr>])"
proof -
  let ?w = "example_world (Response 503 (Content []))"
  let ?s = "example_engine (Inr [ascii ''dato''])"
  obtain msgs s1 where bp: "build_prompt ?w (ascii ''Hola'') (ascii ''u1'') ?s = (Inr msgs, s1)"
    using build_prompt_no_fault [OF example_world_sel(1)] by blast
  have f: "adapter_failed (Response 503 (Content []))"
    by (simp add: adapter_failed_def)
  then have "adapter_failed (requests_post ?w (ollama_url ?s @ ascii ''/api/chat'') (model ?s) msgs)"
    by (simp add: example_world_sel)
  from failed_model_call_frame [OF bp this] f show ?thesis
    by (simp add: example_world_sel example_engine_sel)
qed

text \<open>
  Claim C1, as stated: after a call in which the model adapter fails, a turn has been
  appended to the user's dialogue history. The code does not do that: with a request
  that times out, the fallback reply is returned and the history of the user is as
  empty as before.
\<close>

theorem fallback_persisted_counterexample:
  "fst (generate_response (example_world (Raises Timeout)) (ascii ''Hola'') (ascii ''u1'')
          (example_engine (Inr []))) = Inr (timeout_reply, PREOCUPADA) \<and>
   conversations (memory_system (example_engine (Inr []))) (ascii ''u1'') = [] \<and>
   conversations (memory_system (snd (generate_response (example_world (Raises Timeout))
          (ascii ''Hola'') (ascii ''u1'') (example_engine (Inr []))))) (ascii ''u1'') = []"
proof -
  let ?w = "example_world (Raises Timeout)"
  let ?s = "example_engine (Inr [])"
  obtain msgs s1 where bp: "build_prompt ?w (ascii ''Hola'') (ascii ''u1'') ?s = (Inr msgs, s1)"
    using build_prompt_no_fault [OF example_world_sel(1)] by blast
  have out: "requests_post ?w (ollama_url ?s @ ascii ''/api/chat'') (model ?s) msgs = Raises Timeout"
    by (simp add: example_world_sel)
  from generate_response_raises [OF bp out] build_prompt_frame [OF bp] show ?thesis
    by (simp add: example_engine_sel)
qed

text \<open>
  Claim C1, amended: the fallback reply of a call in which the model adapter fails is
  returned but not persisted. No turn is appended: after the call the dialogue history
  of the user (and of every other user) is what it was before.
\<close>

theorem fallback_reply_not_persisted:
  assumes "build_prompt w m u s = (Inr msgs, s1)"
    and "adapter_failed (requests_post w (ollama_url s @ ascii ''/api/chat'') (model s) msgs)"
  shows "conversations (memory_system (snd (generate_response w m u s))) user =
           conversations (memory_system s) user"
proof -
  have "snd (generate_response w m u s) = s1"
    using assms by (rule generate_response_failed_state)
  with build_prompt_frame [OF assms(1)] show ?thesis by simp
qed

theorem fallback_reply_not_persisted_witness:
  "adapter_failed (Raises (Exception (ascii ''Connection refused''))) \<and>
   conversations (memory_system (snd (generate_response
       (example_world (Raises (Exception (ascii ''Connection refused''))))
       (ascii ''Hola'') (ascii ''u1'') (example_engine (Inr []))))) (ascii ''u1'') = []"
proof -
  let ?w = "example_world (Raises (Exception (ascii ''Connection refused'')))"
  let ?s = "example_engine (Inr [])"
  obtain msgs s1 where bp: "build_prompt ?w (ascii ''Hola'') (ascii ''u1'') ?s = (Inr msgs, s1)"
    using build_prompt_no_fault [OF example_world_sel(1)] by blast
  have f: "adapter_failed (Raises (Exception (ascii ''Connection refused'')))"
    by (simp add: adapter_failed_def)
  then have "adapter_failed (requests_post ?w (ollama_url ?s @ ascii ''/api/chat'') (model ?s) msgs)"
    by (simp add: example_world_sel)
  from fallback_reply_not_persisted [OF bp this, of "ascii ''u1''"] f show ?thesis
    by (simp add: example_engine_sel)
qed

text \<open>
  Claim C2, as stated: every failure of the model adapter other than a timeout, a
  status other than 200 included, gives an apologetic reply with the emotion
  \<open>PREOCUPADA\<close> (worried). With the status 500 the reply is the bare diagnostic text
  and its emotion is \<open>NEUTRAL\<close>.
\<close>

theorem bad_status_worried_counterexample:
  "fst (generate_response (example_world (Response 500 (Content []))) (ascii ''Hola'') (ascii ''u1'')
          (example_engine (Inr []))) =
     Inr (ascii ''Error al conectar con el modelo: 500'', NEUTRAL) \<and>
   snd (projr (fst (generate_response (example_world (Response 500 (Content []))) (ascii ''Hola'')
          (ascii ''u1'') (example_engine (Inr []))))) \<noteq> PREOCUPADA"
proof -
  let ?w = "example_world (Response 500 (Content []))"
  let ?s = "example_engine (Inr [])"
  obtain msgs s1 where bp: "build_prompt ?w (ascii ''Hola'') (ascii ''u1'') ?s = (Inr msgs, s1)"
    using build_prompt_no_fault [OF example_world_sel(1)] by blast
  have out: "requests_post ?w (ollama_url ?s @ ascii ''/api/chat'') (model ?s) msgs =
      Response 500 (Content [])"
    by (simp add: example_world_sel)
  have "status_reply 500 = ascii ''Error al conectar con el modelo: 500''"
    by (simp add: status_reply_def str_int_def digits.simps ascii_def)
  with generate_response_bad_status [OF bp out] show ?thesis by simp
qed

text \<open>
  Claim C2, amended: when the request to the model server raises an exception other
  than a timeout (a connection error, say), the reply is the apologetic text of
  \<open>error_reply\<close>, which ends with the text of the exception as a diagnostic note, and
  its emotion is \<open>PREOCUPADA\<close> (worried); when the server answers with a status other
  than 200, the reply is the diagnostic text of \<open>status_reply\<close> with the status code,
  and its emotion is \<open>NEUTRAL\<close>.
\<close>

theorem adapter_failure_replies:
  assumes "build_prompt w m u s = (Inr msgs, s1)"
  shows "(requests_post w (ollama_url s @ ascii ''/api/chat'') (model s) msgs = Raises (Exception text)
            \<longrightarrow> fst (generate_response w m u s) = Inr (error_reply text, PREOCUPADA)) \<and>
         (requests_post w (ollama_url s @ ascii ''/api/chat'') (model s) msgs = Response code body
            \<and> code \<noteq> 200
            \<longrightarrow> fst (generate_response w m u s) = Inr (status_reply code, NEUTRAL))"
proof (intro conjI impI)
  assume "requests_post w (ollama_url s @ ascii ''/api/chat'') (model s) msgs = Raises (Exception text)"
  from generate_response_raises [OF assms this]
  show "fst (generate_response w m u s) = Inr (error_reply text, PREOCUPADA)" by simp
next
  assume "requests_post w (ollama_url s @ ascii ''/api/chat'') (model s) msgs = Response code body
            \<and> code \<noteq> 200"
  then have "requests_post w (ollama_url s @ ascii ''/api/chat'') (model s) msgs = Response code body"
    and "code \<noteq> 200" by simp_all
  from generate_response_bad_status [OF assms this]
  show "fst (generate_response w m u s) = Inr (status_reply code, NEUTRAL)" by simp
qed

theorem adapter_failure_replies_witness:
  "fst (generate_response (example_world (Raises (Exception (ascii ''Connection refused''))))
          (ascii ''Hola'') (ascii ''u1'') (example_engine (Inr []))) =
     Inr (error_reply (ascii ''Connection refused''), PREOCUPADA) \<and>
   (404::int) \<noteq> 200 \<and>
   fst (generate_response (example_world (Response 404 (Malformed (Exception []))))
          (ascii ''Hola'') (ascii ''u1'') (example_engine (Inr []))) =
     Inr (status_reply 404, NEUTRAL)"
proof -
  let ?w1 = "example_world (Raises (Exception (ascii ''Connection refused'')))"
  let ?w2 = "example_world (Response 404 (Malformed (Exception [])))"
  let ?s = "example_engine (Inr [])"
  obtain msgs1 s1 where bp1: "build_prompt ?w1 (ascii ''Hola'') (ascii ''u1'') ?s = (Inr msgs1, s1)"
    using build_prompt_no_fault [OF example_world_sel(1)] by blast
  obtain msgs2 s2 where bp2: "build_prompt ?w2 (ascii ''Hola'') (ascii ''u1'') ?s = (Inr msgs2, s2)"
    using build_prompt_no_fault [OF example_world_sel(1)] by blast
  from adapter_failure_replies [OF bp1, of "ascii ''Connection refused''"]
  have a: "fst (generate_response ?w1 (ascii ''Hola'') (ascii ''u1'') ?s) =
     Inr (error_reply (ascii ''Connection refused''), PREOCUPADA)"
    by (simp add: example_world_sel)
  from adapter_failure_replies [OF bp2, of _ 404 "Malformed (Exception [])"]
  have b: "fst (generate_response ?w2 (ascii ''Hola'') (ascii ''u1'') ?s) =
     Inr (status_reply 404, NEUTRAL)"
    by (simp add: example_world_sel)
  from a b show ?thesis by simp
qed

section \<open>Properties of the assembled prompt\<close>

lemma prompt_size_layout:
  "prompt_size ([\<lparr>role = r1, content = c1\<rparr>] @ map (\<lambda>msg. \<lparr>role = role msg, content = content msg\<rparr>) ctx @
     [\<lparr>role = r2, content = c2\<rparr>]) =
   length c1 + sum_list (map (\<lambda>t. length (content t)) ctx) + length c2"
  by (simp add: prompt_size_def comp_def)

lemma system_prompt_parts:
  "prefix base (system_prompt w base md st cs es rc)"
  "suffix rc (system_prompt w base md st cs es rc)"
  "length base + length rc \<le> length (system_prompt w base md st cs es rc)"
proof -
  show "prefix base (system_prompt w base md st cs es rc)"
    by (simp add: system_prompt_def)
  obtain front where "system_prompt w base md st cs es rc = front @ rc"
    by (simp add: system_prompt_def)
  then show "suffix rc (system_prompt w base md st cs es rc)"
    by (simp add: suffix_def)
  show "length base + length rc \<le> length (system_prompt w base md st cs es rc)"
    by (simp add: system_prompt_def)
qed

lemma serve_chats_rag_absent:
  "rag_engine s = None \<Longrightarrow> rag_engine (serve_chats calls s) = None"
proof (induction calls arbitrary: s)
  case Nil
  then show ?case by simp
next
  case (Cons c calls)
  obtain w m u where c: "c = (w, m, u)" by (cases c)
  from Cons.prems have "rag_engine (snd (generate_response w m u s)) = None"
    by (rule rag_absent_preserved)
  then show ?case unfolding c by (simp add: Cons.IH)
qed

text \<open>
  Claim C3, as stated: the size of every assembled prompt stays within the budget,
  retrieval snippets being cut first and older turns next. Take 1000 code points as
  budget. Persona and utterance fit in it, so cutting the snippet and the older turns
  would meet it; but the prompt that \<open>build_prompt\<close> assembles for the engine above is
  larger than 1000 code points, its system message ends with the whole snippet of
  1000 code points, and both stored turns are in it with their whole contents.
\<close>

theorem prompt_budget_counterexample:
  "length (base_system_prompt loaded_engine) + length (ascii ''Hola'') \<le> 1000 \<and>
   1000 < assembled_size (example_world (Response 200 (Content []))) (ascii ''Hola'') (ascii ''u1'')
            loaded_engine \<and>
   suffix (rag_header @ replicate 1000 97 @ nl)
     (content (hd (projr (fst (build_prompt (example_world (Response 200 (Content [])))
        (ascii ''Hola'') (ascii ''u1'') loaded_engine))))) \<and>
   map content (butlast (tl (projr (fst (build_prompt (example_world (Response 200 (Content [])))
        (ascii ''Hola'') (ascii ''u1'') loaded_engine))))) = [replicate 600 98, replicate 600 99]"
proof -
  let ?w = "example_world (Response 200 (Content []))"
  obtain msgs s1 where bp: "build_prompt ?w (ascii ''Hola'') (ascii ''u1'') loaded_engine = (Inr msgs, s1)"
    using build_prompt_no_fault [OF example_world_sel(1)] by blast
  note layout = build_prompt_Inr(2) [OF bp]
  have sel: "base_system_prompt loaded_engine = ascii ''Eres Lily.''"
    "rag_engine loaded_engine = Some [replicate 1000 97]"
    "get_conversation_context (memory_system loaded_engine) (ascii ''u1'') 6 =
       [\<lparr>role = ascii ''user'', content = replicate 600 98, emotion_label = None\<rparr>,
        \<lparr>role = ascii ''assistant'', content = replicate 600 99, emotion_label = None\<rparr>]"
    by (simp_all add: loaded_engine_def example_engine_sel get_conversation_context_def)
  have q: "rag_context_of (case rag_engine loaded_engine of None \<Rightarrow> []
              | Some idx \<Rightarrow> query ?w idx (ascii ''Hola'') 2)
      = rag_header @ replicate 1000 97 @ nl"
    by (simp add: sel query_def example_world_def rag_context_of_def)
  have fit: "length (base_system_prompt loaded_engine) + length (ascii ''Hola'') \<le> 1000"
    by (simp add: sel ascii_def)
  have "assembled_size ?w (ascii ''Hola'') (ascii ''u1'') loaded_engine = prompt_size msgs"
    using bp by (simp add: assembled_size_def)
  moreover have "1000 < prompt_size msgs"
    unfolding layout prompt_size_layout sel by simp
  ultimately have big: "1000 < assembled_size ?w (ascii ''Hola'') (ascii ''u1'') loaded_engine"
    by simp
  have snippet: "suffix (rag_header @ replicate 1000 97 @ nl) (content (hd msgs))"
    unfolding layout q by (simp add: system_prompt_parts)
  have turns: "map content (butlast (tl msgs)) = [replicate 600 98, replicate 600 99]"
    unfolding layout sel by (simp add: butlast_append)
  from fit big snippet turns bp show ?thesis by simp
qed

text \<open>
  Claim C3, amended: no size budget is applied to the assembled prompt and nothing is
  truncated. The system message starts with the whole base system prompt (the persona)
  and ends with the whole retrieval context; the recent turns that the memory returned
  (6 were asked for) follow with their whole contents; the last message is the
  current utterance, whole. So the prompt is at least as large as persona and utterance
  together.
\<close>

theorem prompt_segments_whole:
  assumes "build_prompt w m u s = (Inr msgs, s1)"
  shows "prefix (base_system_prompt s) (content (hd msgs)) \<and>
         suffix (rag_context_of (case rag_engine s of None \<Rightarrow> [] | Some idx \<Rightarrow> query w idx m 2))
           (content (hd msgs)) \<and>
         map content (butlast (tl msgs)) =
           map content (get_conversation_context (memory_system s) u 6) \<and>
         last msgs = \<lparr>role = ascii ''user'', content = m\<rparr> \<and>
         length (base_system_prompt s) + length m \<le> prompt_size msgs"
proof -
  note layout = build_prompt_Inr(2) [OF assms]
  have "prefix (base_system_prompt s) (content (hd msgs))"
    unfolding layout by (simp add: system_prompt_parts)
  moreover have "suffix (rag_context_of (case rag_engine s of None \<Rightarrow> [] | Some idx \<Rightarrow> query w idx m 2))
           (content (hd msgs))"
    unfolding layout by (simp add: system_prompt_parts)
  moreover have "map content (butlast (tl msgs)) =
           map content (get_conversation_context (memory_system s) u 6)"
    unfolding layout by (simp add: butlast_append comp_def)
  moreover have "last msgs = \<lparr>role = ascii ''user'', content = m\<rparr>"
    unfolding layout by simp
  moreover have "length (base_system_prompt s) + length m \<le> prompt_size msgs"
  proof -
    have "length (base_system_prompt s) \<le> length (system_prompt w (base_system_prompt s) md st cs es rc)"
      for md st cs es rc
      using system_prompt_parts(3) [of "base_system_prompt s" rc w md st cs es] by simp
    then show ?thesis
      unfolding layout prompt_size_layout by (simp add: add_le_mono trans_le_add1)
  qed
  ultimately show ?thesis by blast
qed

theorem prompt_segments_whole_witness:
  "\<exists>msgs. fst (build_prompt (example_world (Response 200 (Content []))) (ascii ''Hola'') (ascii ''u1'')
        (example_engine (Inr [ascii ''dato'']))) = Inr msgs \<and>
     prefix (ascii ''Eres Lily.'') (content (hd msgs)) \<and>
     suffix (rag_header @ ascii ''dato'' @ nl) (content (hd msgs)) \<and>
     butlast (tl msgs) = [] \<and>
     last msgs = \<lparr>role = ascii ''user'', content = ascii ''Hola''\<rparr> \<and>
     14 \<le> prompt_size msgs"
proof -
  let ?w = "example_world (Response 200 (Content []))"
  let ?s = "example_engine (Inr [ascii ''dato''])"
  obtain msgs s1 where bp: "build_prompt ?w (ascii ''Hola'') (ascii ''u1'') ?s = (Inr msgs, s1)"
    using build_prompt_no_fault [OF example_world_sel(1)] by blast
  have q: "rag_context_of (case rag_engine ?s of None \<Rightarrow> [] | Some idx \<Rightarrow> query ?w idx (ascii ''Hola'') 2)
      = rag_header @ ascii ''dato'' @ nl"
    by (simp add: example_engine_sel query_def example_world_def rag_context_of_def ascii_def)
  from prompt_segments_whole [OF bp]
  have "prefix (ascii ''Eres Lily.'') (content (hd msgs)) \<and>
     suffix (rag_header @ ascii ''dato'' @ nl) (content (hd msgs)) \<and>
     butlast (tl msgs) = [] \<and>
     last msgs = \<lparr>role = ascii ''user'', content = ascii ''Hola''\<rparr> \<and>
     14 \<le> prompt_size msgs"
    unfolding q by (simp add: example_engine_sel get_conversation_context_def ascii_def)
  with bp show ?thesis by simp
qed


text \<open>
  Claim C6. The assembled message list is: one system message, whose content is, in
  this order, the base system prompt (the persona), the emotional modifier, the
  statement of the current emotion with intensity and reason, the conversation
  summary, the emotional summary and the retrieval context; then the turns of the
  recent context, which are the last 6 turns of the user's history (all of them if
  there are fewer) in their stored order; then the new utterance as a user message,
  last. At most 2 snippets are retrieved.
\<close>

theorem build_prompt_layout:
  assumes "build_prompt w m u s = (Inr msgs, s1)"
  shows "(let st = classify w m (current_state (emotional_intelligence s));
              turns = conversations (memory_system s) u;
              recent = drop (length turns - 6) turns;
              docs = (case rag_engine s of None \<Rightarrow> [] | Some idx \<Rightarrow> take 2 (rank w idx m))
          in msgs =
               [\<lparr>role = ascii ''system'',
                 content =
                   base_system_prompt s @ nl @ nl @
                   ascii ''CONTEXTO EMOCIONAL ACTUAL:'' @ nl @
                   modifier_text w st @ nl @
                   ascii ''Tu emoci'' @ [243] @ ascii ''n actual: '' @ emotion_value w (emotion st) @
                     ascii '' (intensidad: '' @ format_2f w (intensity st) @ ascii '')'' @ nl @
                   ascii ''Raz'' @ [243] @ ascii ''n: '' @ reason st @ nl @ nl @
                   ascii ''MEMORIA DE CONVERSACI'' @ [211] @ ascii ''N:'' @ nl @
                   summarise_conversation w turns @ nl @
                   summarise_emotions w (emotional_history (memory_system s) u @ [st]) @ nl @
                   rag_context_of docs\<rparr>] @
               map (\<lambda>turn. \<lparr>role = role turn, content = content turn\<rparr>) recent @
               [\<lparr>role = ascii ''user'', content = m\<rparr>] \<and>
             length recent \<le> 6 \<and> length docs \<le> 2)"
proof -
  have "length (case rag_engine s of None \<Rightarrow> [] | Some idx \<Rightarrow> take 2 (rank w idx m)) \<le> 2"
    by (simp split: option.split)
  moreover have "length (drop (length (conversations (memory_system s) u) - 6)
      (conversations (memory_system s) u)) \<le> 6"
    by simp
  ultimately show ?thesis
    unfolding build_prompt_Inr(2) [OF assms] Let_def
    by (simp add: system_prompt_def get_conversation_context_def query_def Let_def
        split: option.split)
qed

theorem build_prompt_layout_witness:
  "\<exists>msgs. fst (build_prompt (example_world (Response 200 (Content []))) (ascii ''Hola'') (ascii ''u1'')
        ((example_engine (Inr [ascii ''a'', ascii ''b'', ascii ''c'']))
           \<lparr>memory_system := \<lparr>conversations = (\<lambda>user.
                 map (\<lambda>n. \<lparr>role = ascii ''user'', content = [48 + n], emotion_label = None\<rparr>)
                   [1, 2, 3, 4, 5, 6, 7, 8]),
               emotional_history = (\<lambda>user. [])\<rparr>\<rparr>)) = Inr msgs \<and>
     map content (tl msgs) =
       [ascii ''3'', ascii ''4'', ascii ''5'', ascii ''6'', ascii ''7'', ascii ''8'', ascii ''Hola''] \<and>
     suffix (rag_header @ ascii ''c'' @ nl @ ascii ''b'' @ nl) (content (hd msgs))"
proof -
  let ?w = "example_world (Response 200 (Content []))"
  let ?s = "(example_engine (Inr [ascii ''a'', ascii ''b'', ascii ''c'']))
           \<lparr>memory_system := \<lparr>conversations = (\<lambda>user.
                 map (\<lambda>n. \<lparr>role = ascii ''user'', content = [48 + n], emotion_label = None\<rparr>)
                   [1, 2, 3, 4, 5, 6, 7, 8]),
               emotional_history = (\<lambda>user. [])\<rparr>\<rparr>"
  obtain msgs s1 where bp: "build_prompt ?w (ascii ''Hola'') (ascii ''u1'') ?s = (Inr msgs, s1)"
    using build_prompt_no_fault [OF example_world_sel(1)] by blast
  have r: "rag_engine ?s = Some [ascii ''a'', ascii ''b'', ascii ''c'']"
    by (simp add: example_engine_sel)
  have d: "rag_context_of (take 2 (rank ?w [ascii ''a'', ascii ''b'', ascii ''c''] (ascii ''Hola'')))
      = rag_header @ ascii ''c'' @ nl @ ascii ''b'' @ nl"
    by (simp add: example_world_def rag_context_of_def ascii_def)
  from build_prompt_layout [OF bp]
  have "map content (tl msgs) =
       [ascii ''3'', ascii ''4'', ascii ''5'', ascii ''6'', ascii ''7'', ascii ''8'', ascii ''Hola''] \<and>
     suffix (rag_header @ ascii ''c'' @ nl @ ascii ''b'' @ nl) (content (hd msgs))"
    unfolding Let_def r option.case d
    by (simp add: ascii_def suffix_def)
  with bp show ?thesis by simp
qed

text \<open>
  Claim C7. When the construction of the retrieval engine fails, the engine has none,
  and it has none after any sequence of requests. Every further call of
  \<open>generate_response\<close> returns a reply and does not raise, the retrieval context that
  \<open>build_prompt\<close> computes is empty and no query is made, so the system message of an
  assembled prompt ends with the emotional summary and a line break; and when no
  collaborator raises and the model server answers with status 200, the reply is the
  sanitized completion.
\<close>

theorem retrieval_absent_degrades:
  assumes "s = serve_chats calls (AIEngine_init url ei (Inl e) read_prompt)"
  shows "rag_engine s = None \<and>
         (\<exists>text emo. fst (generate_response w m u s) = Inr (text, emo)) \<and>
         get_rag_context w m s = (Inr [], s) \<and>
         (build_prompt w m u s = (Inr msgs, s1) \<longrightarrow>
            content (hd msgs) =
              system_prompt w (base_system_prompt s)
                (modifier_text w (classify w m (current_state (emotional_intelligence s))))
                (classify w m (current_state (emotional_intelligence s)))
                (summarise_conversation w (conversations (memory_system s) u))
                (summarise_emotions w (emotional_history (memory_system s) u @
                   [classify w m (current_state (emotional_intelligence s))]))
                []) \<and>
         (build_prompt w m u s = (Inr msgs, s1) \<and> fault w = (\<lambda>site. None) \<and>
          requests_post w (ollama_url s @ ascii ''/api/chat'') (model s) msgs =
            Response 200 (Content raw) \<longrightarrow>
            fst (generate_response w m u s) =
              Inr (sanitize raw, emotion (classify w m (current_state (emotional_intelligence s)))))"
proof -
  have "rag_engine (AIEngine_init url ei (Inl e) read_prompt) = None"
    by (simp add: AIEngine_init_def)
  then have none: "rag_engine s = None"
    unfolding assms by (rule serve_chats_rag_absent)
  have ret: "\<exists>text emo. fst (generate_response w m u s) = Inr (text, emo)"
  proof -
    obtain r s' where t: "generate_response_try w m u s = (r, s')"
      by (cases "generate_response_try w m u s")
    show ?thesis
    proof (cases r)
      case (Inl x)
      with t show ?thesis by (cases x) (simp_all add: generate_response_def)
    next
      case (Inr reply)
      with t show ?thesis by (cases reply) (simp add: generate_response_def)
    qed
  qed
  have ctx: "get_rag_context w m s = (Inr [], s)"
    by (simp add: get_rag_context_def none return_def)
  have sys: "content (hd msgs) =
              system_prompt w (base_system_prompt s)
                (modifier_text w (classify w m (current_state (emotional_intelligence s))))
                (classify w m (current_state (emotional_intelligence s)))
                (summarise_conversation w (conversations (memory_system s) u))
                (summarise_emotions w (emotional_history (memory_system s) u @
                   [classify w m (current_state (emotional_intelligence s))]))
                []"
    if bp: "build_prompt w m u s = (Inr msgs, s1)"
    unfolding build_prompt_Inr(2) [OF bp] by (simp add: none rag_context_of_def)
  have ok: "fst (generate_response w m u s) =
              Inr (sanitize raw, emotion (classify w m (current_state (emotional_intelligence s))))"
    if bp: "build_prompt w m u s = (Inr msgs, s1)" and nf: "fault w = (\<lambda>site. None)"
      and out: "requests_post w (ollama_url s @ ascii ''/api/chat'') (model s) msgs =
            Response 200 (Content raw)"
    using generate_response_success [OF bp out nf] build_prompt_Inr(1) [OF bp] by simp
  from none ret ctx sys ok show ?thesis by blast
qed

theorem retrieval_absent_degrades_witness:
  "rag_engine (serve_chats
       [(example_world (Response 200 (Content (ascii ''Hola!''))), ascii ''Hola'', ascii ''u1''),
        (example_world (Raises Timeout), ascii ''Sigues ah'' @ [237] @ ascii ''?'', ascii ''u1'')]
       (example_engine (Inl (Exception (ascii ''no backend''))))) = None \<and>
   fst (generate_response (example_world (Response 200 (Content (ascii ''<think>x</think> Bien''))))
       (ascii ''Y ahora?'') (ascii ''u1'')
       (serve_chats
         [(example_world (Response 200 (Content (ascii ''Hola!''))), ascii ''Hola'', ascii ''u1''),
          (example_world (Raises Timeout), ascii ''Sigues ah'' @ [237] @ ascii ''?'', ascii ''u1'')]
         (example_engine (Inl (Exception (ascii ''no backend''))))))
     = Inr (ascii ''Bien'', NEUTRAL)"
proof -
  let ?calls = "[(example_world (Response 200 (Content (ascii ''Hola!''))), ascii ''Hola'', ascii ''u1''),
        (example_world (Raises Timeout), ascii ''Sigues ah'' @ [237] @ ascii ''?'', ascii ''u1'')]"
  let ?w = "example_world (Response 200 (Content (ascii ''<think>x</think> Bien'')))"
  let ?s = "serve_chats ?calls (example_engine (Inl (Exception (ascii ''no backend''))))"
  have s: "?s = serve_chats ?calls (AIEngine_init (ascii ''http://127.0.0.1:11434'')
       \<lparr>current_state = \<lparr>emotion = NEUTRAL, intensity = 50, reason = []\<rparr>\<rparr>
       (Inl (Exception (ascii ''no backend''))) (Inr (ascii ''Eres Lily.'')))"
    by (simp only: example_engine_def)
  obtain msgs s1 where bp: "build_prompt ?w (ascii ''Y ahora?'') (ascii ''u1'') ?s = (Inr msgs, s1)"
    using build_prompt_no_fault [OF example_world_sel(1)] by blast
  have san: "sanitize (ascii ''<think>x</think> Bien'') = ascii ''Bien''"
    by (simp add: sanitize_def OPEN_TAG_eq CLOSE_TAG_eq ascii_def strip_def lstrip_def rstrip_def
        is_space_def)
  from retrieval_absent_degrades [OF s, of ?w "ascii ''Y ahora?''" "ascii ''u1''" msgs s1
      "ascii ''<think>x</think> Bien''"] bp
  show ?thesis
    by (simp only: example_world_sel san emotional_state.simps)
qed

end
